theory Spec2Isabelle
  imports Main
begin

section \<open>Remote query submission (run-remote-query.ts)\<close>

text \<open>
  The module is sequential glue over external collaborators: the credentials object, the
  file system, the YAML parser, the CodeQL CLI server, the editor window and the HTTP
  client. The collaborators are parameters of the model. Every call to one of them is
  recorded as an event, in the order the source awaits them, and every call that can
  reject yields \<open>Inl\<close> of an error. A run of a function is the pair of its outcome
  (\<open>Inl\<close>: the promise rejects, \<open>Inr\<close>: it resolves) and the events it caused.

  Strings are sequences of code units; \<open>undefined\<close> is \<open>None\<close>.
\<close>

subsection \<open>Data\<close>

datatype error = Error string

record Uri =
  fsPath :: string

text \<open>The interface \<open>Config\<close> (lines 9 to 13); \<open>ref\<close> and \<open>language\<close> are optional.\<close>

record Config =
  repositories :: "string list"
  ref :: "string option"
  language :: "string option"

text \<open>The \<open>data\<close> object of the request (lines 83 to 89).\<close>

record RequestData =
  ref :: string
  language :: string
  repositories :: "string list"
  query :: string
  token :: string

text \<open>The second argument of \<open>octokit.request\<close> (lines 80 to 90).\<close>

record RequestParameters =
  owner :: string
  repo :: string
  data :: RequestData

text \<open>The options object handed to \<open>window.showQuickPick\<close> (line 41).\<close>

record QuickPickOptions =
  placeHolder :: string
  ignoreFocusOut :: bool

text \<open>
  The result of \<open>resolveQueryByLanguage\<close>: \<open>byLanguage\<close> is an object keyed by language
  name, kept as an association list in the order \<open>Object.keys\<close> enumerates it.
\<close>

record QueryInfoByLanguage =
  byLanguage :: "(string \<times> string list) list"

text \<open>
  \<open>showAndLogErrorMessage\<close> is called with a string (lines 45 and 63) and with the caught
  error object itself (line 95).
\<close>

datatype message = Text string | Caught error

text \<open>An Octokit client is its \<open>request\<close> method: route and parameters to a response.\<close>

type_synonym Octokit = "string \<Rightarrow> RequestParameters \<Rightarrow> error + unit"

record Credentials =
  getOctokit :: "error + Octokit"
  getToken :: "error + string"

record CodeQLCliServer =
  resolveQueryByLanguage :: "string list \<Rightarrow> Uri \<Rightarrow> error + QueryInfoByLanguage"
  resolveLanguages :: "error + (string \<times> string list) list"

text \<open>
  What the module reaches through its imports rather than its arguments: \<open>fs-extra\<close>,
  \<open>js-yaml\<close>, the \<open>vscode\<close> window and the workspace folders helper. The cast
  \<open>as Config\<close> on line 67 is taken at its word: a document that parses is a \<open>Config\<close>.
\<close>

record Host =
  readFile :: "string \<Rightarrow> error + string"
  pathExists :: "string \<Rightarrow> bool"
  safeLoad :: "string \<Rightarrow> error + Config"
  activeTextEditor :: "Uri option"
  showQuickPick :: "string list \<Rightarrow> QuickPickOptions \<Rightarrow> error + string option"
  getOnDiskWorkspaceFolders :: "string list"

datatype event =
    GetOctokit
  | GetToken
  | ReadFile string
  | PathExists string
  | SafeLoad string
  | ResolveQueryByLanguage "string list" Uri
  | ResolveLanguages
  | ShowQuickPick "string list" QuickPickOptions
  | Log string
  | ShowAndLogErrorMessage message
  | ShowAndLogInformationMessage string
  | Request string RequestParameters

type_synonym 'a io = "(error + 'a) \<times> event list"

subsection \<open>Sequencing\<close>

definition resolved :: "'a \<Rightarrow> 'a io" where
  "resolved x = (Inr x, [])"

text \<open>\<open>await\<close> of an external call: the call is recorded, its outcome is the outcome.\<close>

definition await :: "event \<Rightarrow> error + 'a \<Rightarrow> 'a io" where
  "await ev r = (r, [ev])"

text \<open>A call whose result is discarded with \<open>void\<close>.\<close>

definition void :: "event \<Rightarrow> unit io" where
  "void ev = (Inr (), [ev])"

text \<open>Sequential composition: a rejection ends the run, later events do not happen.\<close>

definition andThen :: "'a io \<Rightarrow> ('a \<Rightarrow> 'b io) \<Rightarrow> 'b io" where
  "andThen m f =
     (case m of
        (Inl e, t) \<Rightarrow> (Inl e, t)
      | (Inr x, t) \<Rightarrow> (case f x of (r, t') \<Rightarrow> (r, t @ t')))"

subsection \<open>JavaScript primitives used by the module\<close>

definition endsWith :: "string \<Rightarrow> string \<Rightarrow> bool" where
  "endsWith s suf =
     (length suf \<le> length s \<and> drop (length s - length suf) s = suf)"

definition substring :: "string \<Rightarrow> nat \<Rightarrow> nat \<Rightarrow> string" where
  "substring s i j = take (max i j - min i j) (drop (min i j) s)"

text \<open>Truthiness of an optional string: \<open>undefined\<close> and the empty string are falsy.\<close>

fun truthy :: "string option \<Rightarrow> bool" where
  "truthy None = False"
| "truthy (Some s) = (s \<noteq> [])"

text \<open>\<open>Object.keys(o)[0]\<close>: the first key, \<open>undefined\<close> when there is none.\<close>

fun firstKey :: "(string \<times> 'v) list \<Rightarrow> string option" where
  "firstKey [] = None"
| "firstKey (kv # _) = Some (fst kv)"

text \<open>Interpolation of an optional string into a template literal.\<close>

fun interpolate :: "string option \<Rightarrow> string" where
  "interpolate None = ''undefined''"
| "interpolate (Some s) = s"

subsection \<open>Constants\<close>

definition OWNER :: string where
  "OWNER = ''dsp-testing''"

definition REPO :: string where
  "REPO = ''qc-controller''"

definition ROUTE :: string where
  "ROUTE = ''POST /repos/:owner/:repo/code-scanning/codeql/queries''"

definition languagePickOptions :: QuickPickOptions where
  "languagePickOptions =
     \<lparr>placeHolder = ''Select target language for your query'', ignoreFocusOut = True\<rparr>"

definition languageNotFound :: message where
  "languageNotFound = Text ''Language not found. Language must be specified manually.''"

definition missingFile :: "string \<Rightarrow> string \<Rightarrow> message" where
  "missingFile repositoriesFile queryFile =
     Text (''Missing file: '' @ [CHR 0x27] @ repositoriesFile @ [CHR 0x27] @
           '' to specify the repositories to run against. This file must be a sibling of '' @
           queryFile @ ''.'')"

definition scheduled :: string where
  "scheduled =
     ''Successfully scheduled runs. [Click here to see the progress](https://github.com/'' @
     OWNER @ ''/'' @ REPO @ ''/actions).''"

subsection \<open>findLanguage (lines 23 to 48)\<close>

text \<open>Lines 38 to 47: the manual choice, reached when autodetection did not return.\<close>

definition promptLanguage :: "Host \<Rightarrow> CodeQLCliServer \<Rightarrow> string option io" where
  "promptLanguage host cliServer =
     andThen (await ResolveLanguages (resolveLanguages cliServer)) (\<lambda>languages.
       let availableLanguages = map fst languages in
       andThen (await (ShowQuickPick availableLanguages languagePickOptions)
                  (showQuickPick host availableLanguages languagePickOptions)) (\<lambda>picked.
         andThen (if \<not> truthy picked then void (ShowAndLogErrorMessage languageNotFound)
                  else resolved ()) (\<lambda>_.
           resolved picked)))"

definition findLanguage :: "Host \<Rightarrow> CodeQLCliServer \<Rightarrow> Uri option \<Rightarrow> string option io" where
  "findLanguage host cliServer queryUri =
     (case (case queryUri of Some u \<Rightarrow> Some u | None \<Rightarrow> activeTextEditor host) of
        Some uri \<Rightarrow>
          (case resolveQueryByLanguage cliServer (getOnDiskWorkspaceFolders host) uri of
             Inr queryInfo \<Rightarrow>
               (let detected = firstKey (byLanguage queryInfo) in
                (Inr detected,
                 [ResolveQueryByLanguage (getOnDiskWorkspaceFolders host) uri,
                  Log (''Detected query language: '' @ interpolate detected)]))
           | Inl e \<Rightarrow>
               andThen
                 (Inr (),
                  [ResolveQueryByLanguage (getOnDiskWorkspaceFolders host) uri,
                   Log ''Could not autodetect query language. Select language manually.''])
                 (\<lambda>_. promptLanguage host cliServer))
      | None \<Rightarrow> promptLanguage host cliServer)"

subsection \<open>runRemoteQuery (lines 50 to 97)\<close>

text \<open>Lines 77 to 96: the request inside \<open>try\<close>, with both notifications.\<close>

definition submit :: "Octokit \<Rightarrow> RequestParameters \<Rightarrow> unit io" where
  "submit octokit params =
     (case octokit ROUTE params of
        Inr _ \<Rightarrow> (Inr (), [Request ROUTE params, ShowAndLogInformationMessage scheduled])
      | Inl e \<Rightarrow> (Inr (), [Request ROUTE params, ShowAndLogErrorMessage (Caught e)]))"

definition repositoriesFileOf :: "string \<Rightarrow> string" where
  "repositoriesFileOf queryFile =
     substring queryFile 0 (length queryFile - length ''.ql'') @ ''.repositories''"

definition runRemoteQuery ::
  "Host \<Rightarrow> CodeQLCliServer \<Rightarrow> Credentials \<Rightarrow> Uri option \<Rightarrow> unit io" where
  "runRemoteQuery host cliServer credentials uri =
     (case uri of
        None \<Rightarrow> resolved ()
      | Some u \<Rightarrow>
          if \<not> endsWith (fsPath u) ''.ql'' then resolved ()
          else
            andThen (await GetOctokit (getOctokit credentials)) (\<lambda>octokit.
            andThen (await GetToken (getToken credentials)) (\<lambda>tok.
            let queryFile = fsPath u in
            andThen (await (ReadFile queryFile) (readFile host queryFile)) (\<lambda>queryText.
            let repositoriesFile = repositoriesFileOf queryFile in
            andThen (await (PathExists repositoriesFile)
                       (Inr (pathExists host repositoriesFile))) (\<lambda>found.
            if \<not> found then
              void (ShowAndLogErrorMessage (missingFile repositoriesFile queryFile))
            else
              andThen (await (ReadFile repositoriesFile)
                         (readFile host repositoriesFile)) (\<lambda>yamlText.
              andThen (await (SafeLoad yamlText) (safeLoad host yamlText)) (\<lambda>config.
              let branch = (if truthy (Config.ref config) then the (Config.ref config)
                            else ''main'') in
              andThen (if truthy (Config.language config) then resolved (Config.language config)
                       else findLanguage host cliServer (Some u)) (\<lambda>lang.
              if \<not> truthy lang then resolved ()
              else
                submit octokit
                  \<lparr>owner = OWNER, repo = REPO,
                   data = \<lparr>ref = branch, language = the lang,
                           repositories = Config.repositories config,
                           query = queryText, token = tok\<rparr>\<rparr>))))))))"

subsection \<open>Observations on a run\<close>

text \<open>The requests of a run, in order.\<close>

fun requests :: "event list \<Rightarrow> (string \<times> RequestParameters) list" where
  "requests [] = []"
| "requests (Request route params # es) = (route, params) # requests es"
| "requests (_ # es) = requests es"

text \<open>The notifications shown to the user; \<open>logger.log\<close> only writes to the log.\<close>

fun isNotification :: "event \<Rightarrow> bool" where
  "isNotification (ShowAndLogErrorMessage _) = True"
| "isNotification (ShowAndLogInformationMessage _) = True"
| "isNotification _ = False"

text \<open>The calls that only \<open>findLanguage\<close> makes.\<close>

fun isLanguageEvent :: "event \<Rightarrow> bool" where
  "isLanguageEvent (ResolveQueryByLanguage _ _) = True"
| "isLanguageEvent ResolveLanguages = True"
| "isLanguageEvent (ShowQuickPick _ _) = True"
| "isLanguageEvent (Log _) = True"
| "isLanguageEvent _ = False"

text \<open>
  The position of a call in the pass: credentials, files, YAML, language, request,
  notification.
\<close>

fun stage :: "event \<Rightarrow> nat" where
  "stage GetOctokit = 0"
| "stage GetToken = 0"
| "stage (ReadFile _) = 1"
| "stage (PathExists _) = 1"
| "stage (SafeLoad _) = 2"
| "stage (ResolveQueryByLanguage _ _) = 3"
| "stage ResolveLanguages = 3"
| "stage (ShowQuickPick _ _) = 3"
| "stage (Log _) = 3"
| "stage (Request _ _) = 4"
| "stage (ShowAndLogErrorMessage _) = 5"
| "stage (ShowAndLogInformationMessage _) = 5"

text \<open>Abbreviations for the pieces of a run that reaches the parsed configuration.\<close>

definition preamble :: "Uri \<Rightarrow> string \<Rightarrow> event list" where
  "preamble u y =
     [GetOctokit, GetToken, ReadFile (fsPath u), PathExists (repositoriesFileOf (fsPath u)),
      ReadFile (repositoriesFileOf (fsPath u)), SafeLoad y]"

definition outcomeNotice :: "error + unit \<Rightarrow> event" where
  "outcomeNotice r =
     (case r of Inl e \<Rightarrow> ShowAndLogErrorMessage (Caught e)
      | Inr _ \<Rightarrow> ShowAndLogInformationMessage scheduled)"

definition languageStep :: "Host \<Rightarrow> CodeQLCliServer \<Rightarrow> Uri \<Rightarrow> Config \<Rightarrow> string option io" where
  "languageStep host cli u config =
     (if truthy (Config.language config) then resolved (Config.language config)
      else findLanguage host cli (Some u))"

definition payload :: "Config \<Rightarrow> string \<Rightarrow> string \<Rightarrow> string \<Rightarrow> RequestParameters" where
  "payload config lang q tok =
     \<lparr>owner = OWNER, repo = REPO,
      data = \<lparr>ref = (if truthy (Config.ref config) then the (Config.ref config) else ''main''),
              language = lang, repositories = Config.repositories config,
              query = q, token = tok\<rparr>\<rparr>"

subsection \<open>Example environments\<close>

definition exampleUri :: Uri where
  "exampleUri = \<lparr>fsPath = ''/w/query.ql''\<rparr>"

definition yamlNoRef :: string where
  "yamlNoRef = ''{repositories: [octo/demo], language: javascript}''"

definition configNoRef :: Config where
  "configNoRef =
     \<lparr>Config.repositories = [''octo/demo''], Config.ref = None,
      Config.language = Some ''javascript''\<rparr>"

definition yamlEmptyStrings :: string where
  "yamlEmptyStrings =
     ''{repositories: [octo/demo], ref: '' @ [CHR 0x27, CHR 0x27] @
     '', language: '' @ [CHR 0x27, CHR 0x27] @ ''}''"

definition configEmptyStrings :: Config where
  "configEmptyStrings =
     \<lparr>Config.repositories = [''octo/demo''], Config.ref = Some [],
      Config.language = Some []\<rparr>"

definition yamlBare :: string where
  "yamlBare = ''{repositories: [octo/demo]}''"

definition configBare :: Config where
  "configBare =
     \<lparr>Config.repositories = [''octo/demo''], Config.ref = None, Config.language = None\<rparr>"

text \<open>A disk holding the query and, beside it, a configuration file with the given text.\<close>

definition exampleHost :: "string \<Rightarrow> Host" where
  "exampleHost yamlText =
     \<lparr>readFile = (\<lambda>p. if p = ''/w/query.ql'' then Inr ''select 1''
                      else if p = ''/w/query.repositories'' then Inr yamlText
                      else Inl (Error ''ENOENT'')),
      pathExists = (\<lambda>p. p = ''/w/query.ql'' \<or> p = ''/w/query.repositories''),
      safeLoad = (\<lambda>t. if t = yamlNoRef then Inr configNoRef
                      else if t = yamlEmptyStrings then Inr configEmptyStrings
                      else if t = yamlBare then Inr configBare
                      else Inl (Error ''YAMLException'')),
      activeTextEditor = None,
      showQuickPick = (\<lambda>items options. Inr None),
      getOnDiskWorkspaceFolders = [''/w'']\<rparr>"

text \<open>A disk with no file on it.\<close>

definition emptyDisk :: Host where
  "emptyDisk =
     \<lparr>readFile = (\<lambda>p. Inl (Error ''ENOENT'')),
      pathExists = (\<lambda>p. False),
      safeLoad = (\<lambda>t. Inl (Error ''YAMLException'')),
      activeTextEditor = None,
      showQuickPick = (\<lambda>items options. Inr None),
      getOnDiskWorkspaceFolders = [''/w'']\<rparr>"

text \<open>A CLI server that detects the given languages for every query.\<close>

definition exampleCli :: "string list \<Rightarrow> CodeQLCliServer" where
  "exampleCli detected =
     \<lparr>resolveQueryByLanguage =
        (\<lambda>folders u. Inr \<lparr>byLanguage = map (\<lambda>l. (l, [fsPath u])) detected\<rparr>),
      resolveLanguages = Inr [(''cpp'', []), (''javascript'', [])]\<rparr>"

text \<open>A CLI server whose autodetection throws.\<close>

definition brokenCli :: CodeQLCliServer where
  "brokenCli =
     \<lparr>resolveQueryByLanguage = (\<lambda>folders u. Inl (Error ''resolve queries failed'')),
      resolveLanguages = Inr [(''cpp'', []), (''javascript'', [])]\<rparr>"

text \<open>Credentials whose client answers every request with the given outcome.\<close>

definition exampleCredentials :: "error + unit \<Rightarrow> Credentials" where
  "exampleCredentials response =
     \<lparr>getOctokit = Inr (\<lambda>route params. response), getToken = Inr ''gho_example''\<rparr>"

text \<open>A host whose user picks the given language in the quick pick.\<close>

definition pickingHost :: "string \<Rightarrow> Host" where
  "pickingHost choice =
     (exampleHost yamlBare)\<lparr>showQuickPick := \<lambda>items options. Inr (Some choice)\<rparr>"

section \<open>Properties\<close>

subsection \<open>Auxiliary facts\<close>

lemma requests_append: "requests (xs @ ys) = requests xs @ requests ys"
  by (induction xs rule: requests.induct) simp_all

lemma requests_mem: "(route, p) \<in> set (requests t) \<longleftrightarrow> Request route p \<in> set t"
  by (induction t rule: requests.induct) auto

lemma endsWith_iff: "endsWith s suf \<longleftrightarrow> (\<exists>p. s = p @ suf)"
  unfolding endsWith_def
  by (metis append_eq_conv_conj append_take_drop_id diff_add_inverse2 length_append length_drop le_add2 )

lemma repositoriesFileOf_stem: "repositoriesFileOf (stem @ ''.ql'') = stem @ ''.repositories''"
  by (simp add: repositoriesFileOf_def substring_def)

lemma truthy_iff: "truthy x \<longleftrightarrow> (\<exists>s. x = Some s \<and> s \<noteq> [])"
  by (cases x) auto

lemmas io_defs = resolved_def await_def void_def andThen_def

lemma promptLanguage_cases:
  "promptLanguage host cli =
     (case resolveLanguages cli of
        Inl e \<Rightarrow> (Inl e, [ResolveLanguages])
      | Inr languages \<Rightarrow>
          (case showQuickPick host (map fst languages) languagePickOptions of
             Inl e \<Rightarrow> (Inl e, [ResolveLanguages, ShowQuickPick (map fst languages) languagePickOptions])
           | Inr picked \<Rightarrow>
               (Inr picked,
                [ResolveLanguages, ShowQuickPick (map fst languages) languagePickOptions] @
                (if truthy picked then [] else [ShowAndLogErrorMessage languageNotFound]))))"
  by (simp add: promptLanguage_def io_defs Let_def split: sum.splits)

lemma findLanguage_cases:
  "findLanguage host cli qu =
     (case (case qu of Some u \<Rightarrow> Some u | None \<Rightarrow> activeTextEditor host) of
        Some u \<Rightarrow>
          (case resolveQueryByLanguage cli (getOnDiskWorkspaceFolders host) u of
             Inr info \<Rightarrow>
               (Inr (firstKey (byLanguage info)),
                [ResolveQueryByLanguage (getOnDiskWorkspaceFolders host) u,
                 Log (''Detected query language: '' @ interpolate (firstKey (byLanguage info)))])
           | Inl e \<Rightarrow>
               (fst (promptLanguage host cli),
                [ResolveQueryByLanguage (getOnDiskWorkspaceFolders host) u,
                 Log ''Could not autodetect query language. Select language manually.''] @
                snd (promptLanguage host cli)))
      | None \<Rightarrow> promptLanguage host cli)"
  by (simp add: findLanguage_def Let_def andThen_def split: option.splits sum.splits prod.splits)

lemma promptLanguage_shape:
  "requests (snd (promptLanguage host cli)) = [] \<and>
   sorted (map stage (snd (promptLanguage host cli))) \<and>
   length (filter isNotification (snd (promptLanguage host cli))) \<le> 1 \<and>
   (\<forall>l. fst (promptLanguage host cli) = Inr (Some l) \<longrightarrow> l \<noteq> [] \<longrightarrow>
        filter isNotification (snd (promptLanguage host cli)) = [] \<and>
        (\<forall>ev \<in> set (snd (promptLanguage host cli)). stage ev = 3))"
  by (simp add: promptLanguage_cases split: sum.splits)

lemma findLanguage_shape:
  "requests (snd (findLanguage host cli qu)) = [] \<and>
   sorted (map stage (snd (findLanguage host cli qu))) \<and>
   (\<forall>ev \<in> set (snd (findLanguage host cli qu)). 3 \<le> stage ev) \<and>
   length (filter isNotification (snd (findLanguage host cli qu))) \<le> 1 \<and>
   (\<forall>l. fst (findLanguage host cli qu) = Inr (Some l) \<longrightarrow> l \<noteq> [] \<longrightarrow>
        filter isNotification (snd (findLanguage host cli qu)) = [] \<and>
        (\<forall>ev \<in> set (snd (findLanguage host cli qu)). stage ev = 3))"
  using promptLanguage_shape[of host cli]
  apply (simp add: findLanguage_cases split: sum.splits option.splits)
  apply (simp add: promptLanguage_cases split: sum.splits)
  done

lemma languageStep_shape:
  "requests (snd (languageStep host cli u config)) = [] \<and>
   sorted (map stage (snd (languageStep host cli u config))) \<and>
   (\<forall>ev \<in> set (snd (languageStep host cli u config)). 3 \<le> stage ev) \<and>
   length (filter isNotification (snd (languageStep host cli u config))) \<le> 1 \<and>
   (\<forall>l. fst (languageStep host cli u config) = Inr (Some l) \<longrightarrow> l \<noteq> [] \<longrightarrow>
        filter isNotification (snd (languageStep host cli u config)) = [] \<and>
        (\<forall>ev \<in> set (snd (languageStep host cli u config)). stage ev = 3))"
  using findLanguage_shape[of host cli "Some u"]
  by (simp add: languageStep_def resolved_def)

lemma findLanguage_detects:
  assumes "queryUri = Some u \<or> queryUri = None \<and> activeTextEditor host = Some u"
  shows "(\<exists>rest. snd (findLanguage host cli queryUri) =
            ResolveQueryByLanguage (getOnDiskWorkspaceFolders host) u # rest) \<and>
         (\<forall>info. resolveQueryByLanguage cli (getOnDiskWorkspaceFolders host) u = Inr info \<longrightarrow>
            findLanguage host cli queryUri =
              (Inr (firstKey (byLanguage info)),
               [ResolveQueryByLanguage (getOnDiskWorkspaceFolders host) u,
                Log (''Detected query language: '' @ interpolate (firstKey (byLanguage info)))]))"
  using assms by (auto simp: findLanguage_cases split: sum.splits)

lemma findLanguage_prompts:
  assumes "(queryUri = None \<and> activeTextEditor host = None) \<or>
           (\<exists>u e. (queryUri = Some u \<or> queryUri = None \<and> activeTextEditor host = Some u) \<and>
                  resolveQueryByLanguage cli (getOnDiskWorkspaceFolders host) u = Inl e)"
    and "resolveLanguages cli = Inr languages"
  shows "ShowQuickPick (map fst languages) languagePickOptions
           \<in> set (snd (findLanguage host cli queryUri))"
  using assms by (auto simp: findLanguage_cases promptLanguage_cases split: sum.splits)

lemma findLanguage_prompted:
  assumes "ShowQuickPick items options \<in> set (snd (findLanguage host cli queryUri))"
  shows "((queryUri = None \<and> activeTextEditor host = None) \<or>
          (\<exists>u e. (queryUri = Some u \<or> queryUri = None \<and> activeTextEditor host = Some u) \<and>
                 resolveQueryByLanguage cli (getOnDiskWorkspaceFolders host) u = Inl e)) \<and>
         (\<exists>languages. resolveLanguages cli = Inr languages \<and> items = map fst languages) \<and>
         options = languagePickOptions \<and>
         (showQuickPick host items options = Inr None \<longrightarrow>
            fst (findLanguage host cli queryUri) = Inr None \<and>
            last (snd (findLanguage host cli queryUri)) = ShowAndLogErrorMessage languageNotFound)"
proof -
  have p: "(\<exists>languages. resolveLanguages cli = Inr languages \<and> items = map fst languages) \<and>
         options = languagePickOptions \<and>
         (showQuickPick host items options = Inr None \<longrightarrow>
            fst (promptLanguage host cli) = Inr None \<and>
            last (snd (promptLanguage host cli)) = ShowAndLogErrorMessage languageNotFound)"
    if "ShowQuickPick items options \<in> set (snd (promptLanguage host cli))"
    using that by (auto simp: promptLanguage_cases truthy_iff split: sum.splits if_splits)
  have ne: "snd (promptLanguage host cli) \<noteq> []"
    by (simp add: promptLanguage_cases split: sum.splits)
  show ?thesis
  proof (cases "case queryUri of Some u \<Rightarrow> Some u | None \<Rightarrow> activeTextEditor host")
    case None
    then have "findLanguage host cli queryUri = promptLanguage host cli"
      by (simp add: findLanguage_cases)
    then show ?thesis using p assms None by (auto split: option.splits)
  next
    case (Some u)
    then have u: "queryUri = Some u \<or> queryUri = None \<and> activeTextEditor host = Some u"
      by (auto split: option.splits)
    show ?thesis
    proof (cases "resolveQueryByLanguage cli (getOnDiskWorkspaceFolders host) u")
      case (Inr info)
      then show ?thesis using assms Some by (simp add: findLanguage_cases)
    next
      case (Inl e)
      then have run: "findLanguage host cli queryUri =
          (fst (promptLanguage host cli),
           [ResolveQueryByLanguage (getOnDiskWorkspaceFolders host) u,
            Log ''Could not autodetect query language. Select language manually.''] @
           snd (promptLanguage host cli))"
        using Some by (simp add: findLanguage_cases)
      then have "ShowQuickPick items options \<in> set (snd (promptLanguage host cli))"
        using assms by simp
      from p[OF this] show ?thesis
        using run ne u Inl by auto
    qed
  qed
qed

lemma promptLanguage_picked:
  assumes "ShowQuickPick items options \<in> set (snd (promptLanguage host cli))"
  shows "(\<forall>picked. showQuickPick host items options = Inr picked \<longrightarrow>
            fst (promptLanguage host cli) = Inr picked \<and>
            ((\<exists>l. picked = Some l \<and> l \<noteq> []) \<longrightarrow>
               last (snd (promptLanguage host cli)) = ShowQuickPick items options \<and>
               filter isNotification (snd (promptLanguage host cli)) = []) \<and>
            (picked = None \<or> picked = Some [] \<longrightarrow>
               last (snd (promptLanguage host cli)) = ShowAndLogErrorMessage languageNotFound \<and>
               filter isNotification (snd (promptLanguage host cli)) =
                 [ShowAndLogErrorMessage languageNotFound])) \<and>
         (\<forall>e. showQuickPick host items options = Inl e \<longrightarrow>
            fst (promptLanguage host cli) = Inl e \<and>
            last (snd (promptLanguage host cli)) = ShowQuickPick items options \<and>
            filter isNotification (snd (promptLanguage host cli)) = [])"
  using assms
  by (auto simp: promptLanguage_cases truthy_iff split: sum.splits if_splits)

lemma findLanguage_picked:
  assumes "ShowQuickPick items options \<in> set (snd (findLanguage host cli queryUri))"
  shows "(\<forall>picked. showQuickPick host items options = Inr picked \<longrightarrow>
            fst (findLanguage host cli queryUri) = Inr picked \<and>
            ((\<exists>l. picked = Some l \<and> l \<noteq> []) \<longrightarrow>
               last (snd (findLanguage host cli queryUri)) = ShowQuickPick items options \<and>
               filter isNotification (snd (findLanguage host cli queryUri)) = []) \<and>
            (picked = None \<or> picked = Some [] \<longrightarrow>
               last (snd (findLanguage host cli queryUri)) =
                 ShowAndLogErrorMessage languageNotFound \<and>
               filter isNotification (snd (findLanguage host cli queryUri)) =
                 [ShowAndLogErrorMessage languageNotFound])) \<and>
         (\<forall>e. showQuickPick host items options = Inl e \<longrightarrow>
            fst (findLanguage host cli queryUri) = Inl e \<and>
            last (snd (findLanguage host cli queryUri)) = ShowQuickPick items options \<and>
            filter isNotification (snd (findLanguage host cli queryUri)) = [])"
proof -
  have ne: "snd (promptLanguage host cli) \<noteq> []"
    by (simp add: promptLanguage_cases split: sum.splits)
  show ?thesis
  proof (cases "case queryUri of Some u \<Rightarrow> Some u | None \<Rightarrow> activeTextEditor host")
    case None
    then have "findLanguage host cli queryUri = promptLanguage host cli"
      by (simp add: findLanguage_cases)
    then show ?thesis using promptLanguage_picked[of items options host cli] assms by simp
  next
    case (Some u)
    show ?thesis
    proof (cases "resolveQueryByLanguage cli (getOnDiskWorkspaceFolders host) u")
      case (Inr info)
      then show ?thesis using assms Some by (simp add: findLanguage_cases)
    next
      case (Inl e)
      then have run: "findLanguage host cli queryUri =
          (fst (promptLanguage host cli),
           [ResolveQueryByLanguage (getOnDiskWorkspaceFolders host) u,
            Log ''Could not autodetect query language. Select language manually.''] @
           snd (promptLanguage host cli))"
        using Some by (simp add: findLanguage_cases)
      then have "ShowQuickPick items options \<in> set (snd (promptLanguage host cli))"
        using assms by simp
      from promptLanguage_picked[OF this] show ?thesis
        using run ne by simp
    qed
  qed
qed

lemma run_not_ql:
  "uri = None \<or> (\<exists>u. uri = Some u \<and> \<not> endsWith (fsPath u) ''.ql'') \<Longrightarrow>
   runRemoteQuery host cli cred uri = (Inr (), [])"
  by (auto simp: runRemoteQuery_def resolved_def)

lemma run_no_octokit:
  assumes "endsWith (fsPath u) ''.ql''" and "getOctokit cred = Inl e"
  shows "runRemoteQuery host cli cred (Some u) = (Inl e, [GetOctokit])"
  using assms by (simp add: runRemoteQuery_def io_defs)

lemma run_no_token:
  assumes "endsWith (fsPath u) ''.ql''" and "getOctokit cred = Inr octokit"
    and "getToken cred = Inl e"
  shows "runRemoteQuery host cli cred (Some u) = (Inl e, [GetOctokit, GetToken])"
  using assms by (simp add: runRemoteQuery_def io_defs)

lemma run_no_query:
  assumes "endsWith (fsPath u) ''.ql''" and "getOctokit cred = Inr octokit"
    and "getToken cred = Inr tok" and "readFile host (fsPath u) = Inl e"
  shows "runRemoteQuery host cli cred (Some u) =
           (Inl e, [GetOctokit, GetToken, ReadFile (fsPath u)])"
  using assms by (simp add: runRemoteQuery_def io_defs Let_def)

lemma run_missing_file:
  assumes "endsWith (fsPath u) ''.ql''" and "getOctokit cred = Inr octokit"
    and "getToken cred = Inr tok" and "readFile host (fsPath u) = Inr q"
    and "\<not> pathExists host (repositoriesFileOf (fsPath u))"
  shows "runRemoteQuery host cli cred (Some u) =
           (Inr (), [GetOctokit, GetToken, ReadFile (fsPath u),
                     PathExists (repositoriesFileOf (fsPath u)),
                     ShowAndLogErrorMessage
                       (missingFile (repositoriesFileOf (fsPath u)) (fsPath u))])"
  using assms by (simp add: runRemoteQuery_def io_defs Let_def)

lemma run_no_config:
  assumes "endsWith (fsPath u) ''.ql''" and "getOctokit cred = Inr octokit"
    and "getToken cred = Inr tok" and "readFile host (fsPath u) = Inr q"
    and "pathExists host (repositoriesFileOf (fsPath u))"
    and "readFile host (repositoriesFileOf (fsPath u)) = Inl e"
  shows "runRemoteQuery host cli cred (Some u) =
           (Inl e, [GetOctokit, GetToken, ReadFile (fsPath u),
                     PathExists (repositoriesFileOf (fsPath u)),
                     ReadFile (repositoriesFileOf (fsPath u))])"
  using assms by (simp add: runRemoteQuery_def io_defs Let_def)

lemma run_bad_yaml:
  assumes "endsWith (fsPath u) ''.ql''" and "getOctokit cred = Inr octokit"
    and "getToken cred = Inr tok" and "readFile host (fsPath u) = Inr q"
    and "pathExists host (repositoriesFileOf (fsPath u))"
    and "readFile host (repositoriesFileOf (fsPath u)) = Inr y"
    and "safeLoad host y = Inl e"
  shows "runRemoteQuery host cli cred (Some u) = (Inl e, preamble u y)"
  using assms by (simp add: runRemoteQuery_def io_defs Let_def preamble_def)

lemma run_parsed:
  assumes "endsWith (fsPath u) ''.ql''"
    and "getOctokit cred = Inr octokit" and "getToken cred = Inr tok"
    and "readFile host (fsPath u) = Inr q"
    and "pathExists host (repositoriesFileOf (fsPath u))"
    and "readFile host (repositoriesFileOf (fsPath u)) = Inr y"
    and "safeLoad host y = Inr config"
  shows "runRemoteQuery host cli cred (Some u) =
     (case languageStep host cli u config of
        (Inl e, evs) \<Rightarrow> (Inl e, preamble u y @ evs)
      | (Inr lang, evs) \<Rightarrow>
          if truthy lang then
            (Inr (), preamble u y @ evs @
               [Request ROUTE (payload config (the lang) q tok),
                outcomeNotice (octokit ROUTE (payload config (the lang) q tok))])
          else (Inr (), preamble u y @ evs))"
  using assms
  by (simp add: runRemoteQuery_def io_defs Let_def languageStep_def preamble_def payload_def
       submit_def outcomeNotice_def split: sum.splits prod.splits)

lemma progress_cases:
  obtains
    (NotQl) "uri = None \<or> (\<exists>u. uri = Some u \<and> \<not> endsWith (fsPath u) ''.ql'')"
  | (NoOctokit) u e where "uri = Some u" "endsWith (fsPath u) ''.ql''" "getOctokit cred = Inl e"
  | (NoToken) u octokit e where "uri = Some u" "endsWith (fsPath u) ''.ql''"
      "getOctokit cred = Inr octokit" "getToken cred = Inl e"
  | (NoQuery) u octokit tok e where "uri = Some u" "endsWith (fsPath u) ''.ql''"
      "getOctokit cred = Inr octokit" "getToken cred = Inr tok"
      "readFile host (fsPath u) = Inl e"
  | (Missing) u octokit tok q where "uri = Some u" "endsWith (fsPath u) ''.ql''"
      "getOctokit cred = Inr octokit" "getToken cred = Inr tok"
      "readFile host (fsPath u) = Inr q"
      "\<not> pathExists host (repositoriesFileOf (fsPath u))"
  | (NoConfig) u octokit tok q e where "uri = Some u" "endsWith (fsPath u) ''.ql''"
      "getOctokit cred = Inr octokit" "getToken cred = Inr tok"
      "readFile host (fsPath u) = Inr q"
      "pathExists host (repositoriesFileOf (fsPath u))"
      "readFile host (repositoriesFileOf (fsPath u)) = Inl e"
  | (BadYaml) u octokit tok q y e where "uri = Some u" "endsWith (fsPath u) ''.ql''"
      "getOctokit cred = Inr octokit" "getToken cred = Inr tok"
      "readFile host (fsPath u) = Inr q"
      "pathExists host (repositoriesFileOf (fsPath u))"
      "readFile host (repositoriesFileOf (fsPath u)) = Inr y"
      "safeLoad host y = Inl e"
  | (Parsed) u octokit tok q y config where "uri = Some u" "endsWith (fsPath u) ''.ql''"
      "getOctokit cred = Inr octokit" "getToken cred = Inr tok"
      "readFile host (fsPath u) = Inr q"
      "pathExists host (repositoriesFileOf (fsPath u))"
      "readFile host (repositoriesFileOf (fsPath u)) = Inr y"
      "safeLoad host y = Inr config"
proof (cases uri)
  case None
  then show ?thesis using NotQl by simp
next
  case (Some u)
  show ?thesis
  proof (cases "endsWith (fsPath u) ''.ql''")
    case False
    then show ?thesis using NotQl Some by simp
  next
    case ql: True
    show ?thesis
    proof (cases "getOctokit cred")
      case (Inl e)
      then show ?thesis using NoOctokit Some ql by simp
    next
      case oc: (Inr octokit)
      show ?thesis
      proof (cases "getToken cred")
        case (Inl e)
        then show ?thesis using NoToken Some ql oc by simp
      next
        case tk: (Inr tok)
        show ?thesis
        proof (cases "readFile host (fsPath u)")
          case (Inl e)
          then show ?thesis using NoQuery Some ql oc tk by simp
        next
          case q: (Inr q)
          show ?thesis
          proof (cases "pathExists host (repositoriesFileOf (fsPath u))")
            case False
            then show ?thesis using Missing Some ql oc tk q by simp
          next
            case ex: True
            show ?thesis
            proof (cases "readFile host (repositoriesFileOf (fsPath u))")
              case (Inl e)
              then show ?thesis using NoConfig Some ql oc tk q ex by simp
            next
              case y: (Inr y)
              show ?thesis
              proof (cases "safeLoad host y")
                case (Inl e)
                then show ?thesis using BadYaml Some ql oc tk q ex y by simp
              next
                case (Inr config)
                then show ?thesis using Parsed Some ql oc tk q ex y by simp
              qed
            qed
          qed
        qed
      qed
    qed
  qed
qed

lemma request_inversion:
  assumes "Request route p \<in> set (snd (runRemoteQuery host cli cred uri))"
  shows "\<exists>u octokit tok q y config lang evs.
     uri = Some u \<and> endsWith (fsPath u) ''.ql'' \<and>
     getOctokit cred = Inr octokit \<and> getToken cred = Inr tok \<and>
     readFile host (fsPath u) = Inr q \<and>
     pathExists host (repositoriesFileOf (fsPath u)) \<and>
     readFile host (repositoriesFileOf (fsPath u)) = Inr y \<and>
     safeLoad host y = Inr config \<and>
     languageStep host cli u config = (Inr (Some lang), evs) \<and> lang \<noteq> [] \<and>
     route = ROUTE \<and> p = payload config lang q tok \<and>
     runRemoteQuery host cli cred uri =
       (Inr (), preamble u y @ evs @ [Request ROUTE p, outcomeNotice (octokit ROUTE p)])"
proof (cases rule: progress_cases[where uri = uri and cred = cred and host = host])
  case NotQl
  then show ?thesis using assms run_not_ql[of uri host cli cred] by simp
next
  case (NoOctokit u e)
  then show ?thesis using assms run_no_octokit[OF NoOctokit(2,3), of host cli] by simp
next
  case (NoToken u octokit e)
  then show ?thesis using assms run_no_token[OF NoToken(2-4), of host cli] by simp
next
  case (NoQuery u octokit tok e)
  then show ?thesis using assms run_no_query[OF NoQuery(2-5), of cli] by simp
next
  case (Missing u octokit tok q)
  then show ?thesis using assms run_missing_file[OF Missing(2-6), of cli] by simp
next
  case (NoConfig u octokit tok q e)
  then show ?thesis using assms run_no_config[OF NoConfig(2-7), of cli] by simp
next
  case (BadYaml u octokit tok q y e)
  then show ?thesis using assms run_bad_yaml[OF BadYaml(2-8), of cli]
    by (simp add: preamble_def)
next
  case (Parsed u octokit tok q y config)
  note run = run_parsed[OF Parsed(2-8), of cli]
  obtain r evs where step: "languageStep host cli u config = (r, evs)"
    by (cases "languageStep host cli u config")
  have noreq: "Request route p \<notin> set evs"
    using languageStep_shape[of host cli u config] step requests_mem[of route p evs]
    by simp
  have pre: "Request route p \<notin> set (preamble u y)"
    by (simp add: preamble_def)
  show ?thesis
  proof (cases r)
    case (Inl e)
    then show ?thesis using assms run step noreq pre Parsed(1) by simp
  next
    case (Inr lang)
    show ?thesis
    proof (cases "truthy lang")
      case False
      then show ?thesis using assms run step noreq pre Parsed(1) Inr by simp
    next
      case True
      then obtain l where l: "lang = Some l" "l \<noteq> []"
        by (cases lang) auto
      have "route = ROUTE \<and> p = payload config l q tok"
        using assms run step noreq pre Parsed(1) Inr l
        by (auto simp: outcomeNotice_def split: sum.splits)
      then show ?thesis
        using run step Parsed Inr l by simp
    qed
  qed
qed

lemma file_events:
  assumes ql: "endsWith (fsPath u) ''.ql''"
    and ev: "ev \<in> set (snd (runRemoteQuery host cli cred (Some u)))"
    and early: "stage ev \<le> 2"
  shows "ev \<in> {GetOctokit, GetToken, ReadFile (fsPath u),
               PathExists (repositoriesFileOf (fsPath u)),
               ReadFile (repositoriesFileOf (fsPath u))} \<or>
         (\<exists>y. ev = SafeLoad y \<and> readFile host (repositoriesFileOf (fsPath u)) = Inr y)"
proof (cases rule: progress_cases[where uri = "Some u" and cred = cred and host = host])
  case NotQl
  then show ?thesis using ql by simp
next
  case (NoOctokit u' e)
  then show ?thesis using ev run_no_octokit[OF NoOctokit(2,3), of host cli] by simp
next
  case (NoToken u' octokit e)
  then show ?thesis using ev run_no_token[OF NoToken(2-4), of host cli] by auto
next
  case (NoQuery u' octokit tok e)
  then show ?thesis using ev run_no_query[OF NoQuery(2-5), of cli] by auto
next
  case (Missing u' octokit tok q)
  then show ?thesis using ev early run_missing_file[OF Missing(2-6), of cli] by auto
next
  case (NoConfig u' octokit tok q e)
  then show ?thesis using ev run_no_config[OF NoConfig(2-7), of cli] by auto
next
  case (BadYaml u' octokit tok q y e)
  then show ?thesis using ev run_bad_yaml[OF BadYaml(2-8), of cli]
    by (auto simp: preamble_def)
next
  case (Parsed u' octokit tok q y config)
  then have u': "u' = u" by simp
  note run = run_parsed[OF Parsed(2-8), of cli]
  obtain r evs where step: "languageStep host cli u' config = (r, evs)"
    by (cases "languageStep host cli u' config")
  have late: "\<forall>e \<in> set evs. 3 \<le> stage e"
    using languageStep_shape[of host cli u' config] step by simp
  have "ev \<in> set (preamble u' y) \<or> ev \<in> set evs \<or> 4 \<le> stage ev"
    using ev run step u'
    by (auto simp: outcomeNotice_def split: sum.splits if_splits)
  then have "ev \<in> set (preamble u' y)"
    using late early by auto
  then show ?thesis
    using Parsed(7) u' by (auto simp: preamble_def)
qed

lemmas example_defs = exampleUri_def yamlNoRef_def configNoRef_def yamlEmptyStrings_def
  configEmptyStrings_def yamlBare_def configBare_def exampleHost_def emptyDisk_def
  exampleCli_def brokenCli_def exampleCredentials_def

lemmas run_defs = runRemoteQuery_def findLanguage_def promptLanguage_def submit_def
  repositoriesFileOf_def substring_def endsWith_def resolved_def await_def void_def
  andThen_def Let_def OWNER_def REPO_def ROUTE_def scheduled_def missingFile_def
  languageNotFound_def languagePickOptions_def

subsection \<open>Claims\<close>

text \<open>
  Claim C1. A run of \<open>runRemoteQuery\<close> that issues a request resolves and issues
  exactly that one request. The request goes to the route
  \<open>POST /repos/:owner/:repo/code-scanning/codeql/queries\<close> with owner \<open>dsp-testing\<close>
  and repo \<open>qc-controller\<close>, whatever the host, the CLI server, the credentials and the
  uri are, and its \<open>data\<close> object has the five fields \<open>ref\<close>, \<open>language\<close>,
  \<open>repositories\<close>, \<open>query\<close> and \<open>token\<close>.
\<close>

theorem runRemoteQuery_request_target:
  assumes "Request route params \<in> set (snd (runRemoteQuery host cliServer credentials uri))"
  shows "fst (runRemoteQuery host cliServer credentials uri) = Inr () \<and>
         requests (snd (runRemoteQuery host cliServer credentials uri)) = [(route, params)] \<and>
         route = ''POST /repos/:owner/:repo/code-scanning/codeql/queries'' \<and>
         owner params = ''dsp-testing'' \<and> repo params = ''qc-controller'' \<and>
         (\<exists>r l rs q t. params =
            \<lparr>owner = ''dsp-testing'', repo = ''qc-controller'',
             data = \<lparr>ref = r, language = l, repositories = rs, query = q, token = t\<rparr>\<rparr>)"
proof -
  from request_inversion[OF assms] obtain u octokit tok q y config lang evs where
    step: "languageStep host cliServer u config = (Inr (Some lang), evs)"
    and route: "route = ROUTE" and p: "params = payload config lang q tok"
    and run: "runRemoteQuery host cliServer credentials uri =
       (Inr (), preamble u y @ evs @ [Request ROUTE params, outcomeNotice (octokit ROUTE params)])"
    by blast
  have "requests evs = []"
    using languageStep_shape[of host cliServer u config] step by simp
  then have "requests (snd (runRemoteQuery host cliServer credentials uri)) = [(route, params)]"
    using run route
    by (simp add: requests_append preamble_def outcomeNotice_def split: sum.splits)
  then show ?thesis
    using run route p by (simp add: ROUTE_def payload_def OWNER_def REPO_def)
qed

text \<open>
  A run with a query, a configuration naming a language and a client that accepts the
  request: the request is in the trace, and it is the only one.
\<close>

theorem runRemoteQuery_request_target_witness:
  "Request ''POST /repos/:owner/:repo/code-scanning/codeql/queries''
     \<lparr>owner = ''dsp-testing'', repo = ''qc-controller'',
      data = \<lparr>ref = ''main'', language = ''javascript'', repositories = [''octo/demo''],
              query = ''select 1'', token = ''gho_example''\<rparr>\<rparr>
     \<in> set (snd (runRemoteQuery (exampleHost yamlNoRef) (exampleCli [])
                   (exampleCredentials (Inr ())) (Some exampleUri))) \<and>
   requests (snd (runRemoteQuery (exampleHost yamlNoRef) (exampleCli [])
                   (exampleCredentials (Inr ())) (Some exampleUri))) =
     [(''POST /repos/:owner/:repo/code-scanning/codeql/queries'',
       \<lparr>owner = ''dsp-testing'', repo = ''qc-controller'',
        data = \<lparr>ref = ''main'', language = ''javascript'', repositories = [''octo/demo''],
                query = ''select 1'', token = ''gho_example''\<rparr>\<rparr>)]"
proof -
  have mem: "Request ''POST /repos/:owner/:repo/code-scanning/codeql/queries''
     \<lparr>owner = ''dsp-testing'', repo = ''qc-controller'',
      data = \<lparr>ref = ''main'', language = ''javascript'', repositories = [''octo/demo''],
              query = ''select 1'', token = ''gho_example''\<rparr>\<rparr>
     \<in> set (snd (runRemoteQuery (exampleHost yamlNoRef) (exampleCli [])
                   (exampleCredentials (Inr ())) (Some exampleUri)))"
    by (simp add: example_defs run_defs)
  show ?thesis
    using mem runRemoteQuery_request_target[OF mem] by simp
qed

text \<open>
  Claim C2, amended. In a run that issues the request, the \<open>repositories\<close> field of the
  request is the \<open>repositories\<close> field of the parsed configuration and the \<open>query\<close>
  field is the text read from the query file. The \<open>ref\<close> and \<open>language\<close> fields are
  those of the configuration whenever the configuration gives them a non-empty value;
  a missing or empty value is replaced by the fallback.
\<close>

theorem runRemoteQuery_passes_through:
  assumes "Request route params \<in> set (snd (runRemoteQuery host cliServer credentials uri))"
  shows "\<exists>u q y config.
           uri = Some u \<and> readFile host (fsPath u) = Inr q \<and>
           readFile host (repositoriesFileOf (fsPath u)) = Inr y \<and>
           safeLoad host y = Inr config \<and>
           repositories (data params) = Config.repositories config \<and>
           query (data params) = q \<and>
           (\<forall>r. Config.ref config = Some r \<longrightarrow> r \<noteq> [] \<longrightarrow> ref (data params) = r) \<and>
           (\<forall>l. Config.language config = Some l \<longrightarrow> l \<noteq> [] \<longrightarrow> language (data params) = l)"
proof -
  from request_inversion[OF assms] obtain u octokit tok q y config lang evs where
    u: "uri = Some u" and q: "readFile host (fsPath u) = Inr q"
    and y: "readFile host (repositoriesFileOf (fsPath u)) = Inr y"
    and config: "safeLoad host y = Inr config"
    and step: "languageStep host cliServer u config = (Inr (Some lang), evs)"
    and p: "params = payload config lang q tok"
    by blast
  have "\<forall>l. Config.language config = Some l \<longrightarrow> l \<noteq> [] \<longrightarrow> lang = l"
    using step by (auto simp: languageStep_def resolved_def)
  then have "repositories (data params) = Config.repositories config \<and>
           query (data params) = q \<and>
           (\<forall>r. Config.ref config = Some r \<longrightarrow> r \<noteq> [] \<longrightarrow> ref (data params) = r) \<and>
           (\<forall>l. Config.language config = Some l \<longrightarrow> l \<noteq> [] \<longrightarrow> language (data params) = l)"
    using p by (simp add: payload_def)
  with u q y config show ?thesis by blast
qed

text \<open>
  The run of the example configuration issues a request whose \<open>repositories\<close> and
  \<open>query\<close> fields are those of the configuration and of the query file.
\<close>

theorem runRemoteQuery_passes_through_witness:
  "Request ''POST /repos/:owner/:repo/code-scanning/codeql/queries''
     \<lparr>owner = ''dsp-testing'', repo = ''qc-controller'',
      data = \<lparr>ref = ''main'', language = ''javascript'', repositories = [''octo/demo''],
              query = ''select 1'', token = ''gho_example''\<rparr>\<rparr>
     \<in> set (snd (runRemoteQuery (exampleHost yamlNoRef) (exampleCli [])
                   (exampleCredentials (Inr ())) (Some exampleUri))) \<and>
   (\<exists>u q y config.
      Some exampleUri = Some u \<and> readFile (exampleHost yamlNoRef) (fsPath u) = Inr q \<and>
      readFile (exampleHost yamlNoRef) (repositoriesFileOf (fsPath u)) = Inr y \<and>
      safeLoad (exampleHost yamlNoRef) y = Inr config \<and>
      [''octo/demo''] = Config.repositories config \<and> ''select 1'' = q)"
proof -
  let ?p = "\<lparr>owner = ''dsp-testing'', repo = ''qc-controller'',
      data = \<lparr>ref = ''main'', language = ''javascript'', repositories = [''octo/demo''],
              query = ''select 1'', token = ''gho_example''\<rparr>\<rparr>"
  have mem: "Request ''POST /repos/:owner/:repo/code-scanning/codeql/queries'' ?p
     \<in> set (snd (runRemoteQuery (exampleHost yamlNoRef) (exampleCli [])
                   (exampleCredentials (Inr ())) (Some exampleUri)))"
    by (simp add: example_defs run_defs)
  from runRemoteQuery_passes_through[OF mem] obtain u q y config where
    "Some exampleUri = Some u" "readFile (exampleHost yamlNoRef) (fsPath u) = Inr q"
    "readFile (exampleHost yamlNoRef) (repositoriesFileOf (fsPath u)) = Inr y"
    "safeLoad (exampleHost yamlNoRef) y = Inr config"
    "repositories (data ?p) = Config.repositories config" "query (data ?p) = q"
    by blast
  then have "\<exists>u q y config.
      Some exampleUri = Some u \<and> readFile (exampleHost yamlNoRef) (fsPath u) = Inr q \<and>
      readFile (exampleHost yamlNoRef) (repositoriesFileOf (fsPath u)) = Inr y \<and>
      safeLoad (exampleHost yamlNoRef) y = Inr config \<and>
      [''octo/demo''] = Config.repositories config \<and> ''select 1'' = q"
    by (intro exI[of _ u] exI[of _ q] exI[of _ y] exI[of _ config]) simp
  with mem show ?thesis by blast
qed

text \<open>
  Claim C2 as stated fails for a configuration without a \<open>ref\<close>: the configuration's
  field is \<open>undefined\<close>, the request's field is \<open>main\<close>.
\<close>

theorem runRemoteQuery_passes_through_counterexample:
  "safeLoad (exampleHost yamlNoRef) yamlNoRef = Inr configNoRef \<and>
   Config.ref configNoRef = None \<and>
   requests (snd (runRemoteQuery (exampleHost yamlNoRef) (exampleCli [])
                    (exampleCredentials (Inr ())) (Some exampleUri))) =
     [(''POST /repos/:owner/:repo/code-scanning/codeql/queries'',
       \<lparr>owner = ''dsp-testing'', repo = ''qc-controller'',
        data = \<lparr>ref = ''main'', language = ''javascript'', repositories = [''octo/demo''],
                query = ''select 1'', token = ''gho_example''\<rparr>\<rparr>)]"
  by (simp add: example_defs run_defs)

text \<open>
  Claim C3. For a uri whose path ends in \<open>.ql\<close>, the path is some stem followed by
  \<open>.ql\<close>; the only path checked for existence is the stem followed by
  \<open>.repositories\<close>, the only files read are the query file and that sibling, and the
  only text handed to the YAML parser is the text of that sibling.
\<close>

theorem runRemoteQuery_sibling_configuration:
  assumes "endsWith (fsPath u) ''.ql''"
  shows "\<exists>stem. fsPath u = stem @ ''.ql'' \<and>
           (\<forall>ev \<in> set (snd (runRemoteQuery host cliServer credentials (Some u))).
              (\<forall>p. ev = PathExists p \<longrightarrow> p = stem @ ''.repositories'') \<and>
              (\<forall>p. ev = ReadFile p \<longrightarrow> p = stem @ ''.ql'' \<or> p = stem @ ''.repositories'') \<and>
              (\<forall>t. ev = SafeLoad t \<longrightarrow> readFile host (stem @ ''.repositories'') = Inr t))"
proof -
  from assms obtain stem where stem: "fsPath u = stem @ ''.ql''"
    using endsWith_iff[of "fsPath u" "''.ql''"] by blast
  have rf: "repositoriesFileOf (fsPath u) = stem @ ''.repositories''"
    using stem repositoriesFileOf_stem[of stem] by simp
  have "(\<forall>p. ev = PathExists p \<longrightarrow> p = stem @ ''.repositories'') \<and>
        (\<forall>p. ev = ReadFile p \<longrightarrow> p = stem @ ''.ql'' \<or> p = stem @ ''.repositories'') \<and>
        (\<forall>t. ev = SafeLoad t \<longrightarrow> readFile host (stem @ ''.repositories'') = Inr t)"
    if "ev \<in> set (snd (runRemoteQuery host cliServer credentials (Some u)))" for ev
  proof (cases "stage ev \<le> 2")
    case True
    from file_events[OF assms that True] show ?thesis
      using stem rf by auto
  next
    case False
    then show ?thesis by (cases ev) auto
  qed
  then show ?thesis using stem by blast
qed

text \<open>
  In the example run the sibling \<open>/w/query.repositories\<close> is read and no other
  \<open>.repositories\<close> file is.
\<close>

theorem runRemoteQuery_sibling_configuration_witness:
  "endsWith (fsPath exampleUri) ''.ql'' \<and>
   ReadFile ''/w/query.repositories''
     \<in> set (snd (runRemoteQuery (exampleHost yamlNoRef) (exampleCli [])
                   (exampleCredentials (Inr ())) (Some exampleUri))) \<and>
   ReadFile ''/w/other.repositories''
     \<notin> set (snd (runRemoteQuery (exampleHost yamlNoRef) (exampleCli [])
                   (exampleCredentials (Inr ())) (Some exampleUri)))"
proof -
  have ql: "endsWith (fsPath exampleUri) ''.ql''"
    by (simp add: exampleUri_def endsWith_def)
  have mem: "ReadFile ''/w/query.repositories''
     \<in> set (snd (runRemoteQuery (exampleHost yamlNoRef) (exampleCli [])
                   (exampleCredentials (Inr ())) (Some exampleUri)))"
    by (simp add: example_defs run_defs)
  from runRemoteQuery_sibling_configuration[OF ql, of "exampleHost yamlNoRef" "exampleCli []"
      "exampleCredentials (Inr ())"]
  obtain stem where stem: "fsPath exampleUri = stem @ ''.ql''"
    and all: "\<forall>ev \<in> set (snd (runRemoteQuery (exampleHost yamlNoRef) (exampleCli [])
                   (exampleCredentials (Inr ())) (Some exampleUri))).
              (\<forall>p. ev = ReadFile p \<longrightarrow> p = stem @ ''.ql'' \<or> p = stem @ ''.repositories'')"
    by blast
  have "fsPath exampleUri = ''/w/query'' @ ''.ql''"
    by (simp add: exampleUri_def)
  with stem have "stem @ ''.ql'' = ''/w/query'' @ ''.ql''"
    by (rule trans[OF sym])
  then have stem': "stem = ''/w/query''"
    by (rule append_same_eq[THEN iffD1])
  have "ReadFile ''/w/other.repositories''
     \<notin> set (snd (runRemoteQuery (exampleHost yamlNoRef) (exampleCli [])
                   (exampleCredentials (Inr ())) (Some exampleUri)))"
  proof
    assume "ReadFile ''/w/other.repositories''
     \<in> set (snd (runRemoteQuery (exampleHost yamlNoRef) (exampleCli [])
                   (exampleCredentials (Inr ())) (Some exampleUri)))"
    from bspec[OF all this]
    have "''/w/other.repositories'' = stem @ ''.ql'' \<or>
          ''/w/other.repositories'' = stem @ ''.repositories''"
      by blast
    then show False
      unfolding stem' by simp
  qed
  with ql mem show ?thesis by blast
qed




text \<open>
  Claim C5. When a uri is available (the argument, or else the active editor's document),
  \<open>findLanguage\<close> first calls \<open>resolveQueryByLanguage\<close> on it, and when that call
  succeeds it returns the first detected language without prompting. The quick pick is
  shown only when no uri is available or the autodetection threw, and it offers the keys
  of \<open>resolveLanguages\<close>; in those two cases, once the languages are resolved, it is
  shown. The result of \<open>findLanguage\<close> is then what the quick pick returns: a picked
  language is returned as it is, with the quick pick as the last call and no
  notification; when the user cancels (or the pick is empty), the error message is
  shown last, as the only notification, and the result is the pick, \<open>undefined\<close> on
  cancel; when the quick pick rejects, \<open>findLanguage\<close> rejects with its error.
\<close>

theorem findLanguage_autodetect_then_prompt:
  "(\<forall>u. (queryUri = Some u \<or> queryUri = None \<and> activeTextEditor host = Some u) \<longrightarrow>
      (\<exists>rest. snd (findLanguage host cliServer queryUri) =
         ResolveQueryByLanguage (getOnDiskWorkspaceFolders host) u # rest) \<and>
      (\<forall>info. resolveQueryByLanguage cliServer (getOnDiskWorkspaceFolders host) u = Inr info \<longrightarrow>
         findLanguage host cliServer queryUri =
           (Inr (firstKey (byLanguage info)),
            [ResolveQueryByLanguage (getOnDiskWorkspaceFolders host) u,
             Log (''Detected query language: '' @ interpolate (firstKey (byLanguage info)))]))) \<and>
   (\<forall>items options.
      ShowQuickPick items options \<in> set (snd (findLanguage host cliServer queryUri)) \<longrightarrow>
      ((queryUri = None \<and> activeTextEditor host = None) \<or>
       (\<exists>u e. (queryUri = Some u \<or> queryUri = None \<and> activeTextEditor host = Some u) \<and>
              resolveQueryByLanguage cliServer (getOnDiskWorkspaceFolders host) u = Inl e)) \<and>
      (\<exists>languages. resolveLanguages cliServer = Inr languages \<and> items = map fst languages) \<and>
      (showQuickPick host items options = Inr None \<longrightarrow>
         fst (findLanguage host cliServer queryUri) = Inr None \<and>
         last (snd (findLanguage host cliServer queryUri)) =
           ShowAndLogErrorMessage
             (Text ''Language not found. Language must be specified manually.'')) \<and>
      (\<forall>picked. showQuickPick host items options = Inr picked \<longrightarrow>
         fst (findLanguage host cliServer queryUri) = Inr picked \<and>
         ((\<exists>l. picked = Some l \<and> l \<noteq> []) \<longrightarrow>
            last (snd (findLanguage host cliServer queryUri)) = ShowQuickPick items options \<and>
            filter isNotification (snd (findLanguage host cliServer queryUri)) = []) \<and>
         (picked = None \<or> picked = Some [] \<longrightarrow>
            last (snd (findLanguage host cliServer queryUri)) =
              ShowAndLogErrorMessage
                (Text ''Language not found. Language must be specified manually.'') \<and>
            filter isNotification (snd (findLanguage host cliServer queryUri)) =
              [ShowAndLogErrorMessage
                 (Text ''Language not found. Language must be specified manually.'')])) \<and>
      (\<forall>e. showQuickPick host items options = Inl e \<longrightarrow>
         fst (findLanguage host cliServer queryUri) = Inl e \<and>
         last (snd (findLanguage host cliServer queryUri)) = ShowQuickPick items options \<and>
         filter isNotification (snd (findLanguage host cliServer queryUri)) = [])) \<and>
   (\<forall>languages.
      ((queryUri = None \<and> activeTextEditor host = None) \<or>
       (\<exists>u e. (queryUri = Some u \<or> queryUri = None \<and> activeTextEditor host = Some u) \<and>
              resolveQueryByLanguage cliServer (getOnDiskWorkspaceFolders host) u = Inl e)) \<longrightarrow>
      resolveLanguages cliServer = Inr languages \<longrightarrow>
      ShowQuickPick (map fst languages)
        \<lparr>placeHolder = ''Select target language for your query'', ignoreFocusOut = True\<rparr>
        \<in> set (snd (findLanguage host cliServer queryUri)))"
proof -
  have A: "(\<exists>rest. snd (findLanguage host cliServer queryUri) =
         ResolveQueryByLanguage (getOnDiskWorkspaceFolders host) u # rest) \<and>
      (\<forall>info. resolveQueryByLanguage cliServer (getOnDiskWorkspaceFolders host) u = Inr info \<longrightarrow>
         findLanguage host cliServer queryUri =
           (Inr (firstKey (byLanguage info)),
            [ResolveQueryByLanguage (getOnDiskWorkspaceFolders host) u,
             Log (''Detected query language: '' @ interpolate (firstKey (byLanguage info)))]))"
    if "queryUri = Some u \<or> queryUri = None \<and> activeTextEditor host = Some u" for u
    using findLanguage_detects[OF that, of cliServer] .
  have B: "((queryUri = None \<and> activeTextEditor host = None) \<or>
       (\<exists>u e. (queryUri = Some u \<or> queryUri = None \<and> activeTextEditor host = Some u) \<and>
              resolveQueryByLanguage cliServer (getOnDiskWorkspaceFolders host) u = Inl e)) \<and>
      (\<exists>languages. resolveLanguages cliServer = Inr languages \<and> items = map fst languages) \<and>
      (showQuickPick host items options = Inr None \<longrightarrow>
         fst (findLanguage host cliServer queryUri) = Inr None \<and>
         last (snd (findLanguage host cliServer queryUri)) =
           ShowAndLogErrorMessage
             (Text ''Language not found. Language must be specified manually.''))"
    if "ShowQuickPick items options \<in> set (snd (findLanguage host cliServer queryUri))"
    for items options
    using findLanguage_prompted[OF that] unfolding languageNotFound_def by blast
  have C: "(\<forall>picked. showQuickPick host items options = Inr picked \<longrightarrow>
         fst (findLanguage host cliServer queryUri) = Inr picked \<and>
         ((\<exists>l. picked = Some l \<and> l \<noteq> []) \<longrightarrow>
            last (snd (findLanguage host cliServer queryUri)) = ShowQuickPick items options \<and>
            filter isNotification (snd (findLanguage host cliServer queryUri)) = []) \<and>
         (picked = None \<or> picked = Some [] \<longrightarrow>
            last (snd (findLanguage host cliServer queryUri)) =
              ShowAndLogErrorMessage
                (Text ''Language not found. Language must be specified manually.'') \<and>
            filter isNotification (snd (findLanguage host cliServer queryUri)) =
              [ShowAndLogErrorMessage
                 (Text ''Language not found. Language must be specified manually.'')])) \<and>
      (\<forall>e. showQuickPick host items options = Inl e \<longrightarrow>
         fst (findLanguage host cliServer queryUri) = Inl e \<and>
         last (snd (findLanguage host cliServer queryUri)) = ShowQuickPick items options \<and>
         filter isNotification (snd (findLanguage host cliServer queryUri)) = [])"
    if "ShowQuickPick items options \<in> set (snd (findLanguage host cliServer queryUri))"
    for items options
    using findLanguage_picked[OF that] unfolding languageNotFound_def .
  have D: "ShowQuickPick (map fst languages)
        \<lparr>placeHolder = ''Select target language for your query'', ignoreFocusOut = True\<rparr>
        \<in> set (snd (findLanguage host cliServer queryUri))"
    if "(queryUri = None \<and> activeTextEditor host = None) \<or>
       (\<exists>u e. (queryUri = Some u \<or> queryUri = None \<and> activeTextEditor host = Some u) \<and>
              resolveQueryByLanguage cliServer (getOnDiskWorkspaceFolders host) u = Inl e)"
      "resolveLanguages cliServer = Inr languages" for languages
    using findLanguage_prompts[OF that] unfolding languagePickOptions_def .
  from A B C D show ?thesis by blast
qed

text \<open>
  A CLI server that detects \<open>javascript\<close> gives that language with no prompt; one whose
  autodetection throws leads to the prompt. The cancelled prompt gives the error message
  and \<open>undefined\<close>; the prompt in which the user picks \<open>cpp\<close> gives \<open>cpp\<close> and no
  notification.
\<close>

theorem findLanguage_autodetect_then_prompt_witness:
  "findLanguage (exampleHost yamlBare) (exampleCli [''javascript'']) (Some exampleUri) =
     (Inr (Some ''javascript''),
      [ResolveQueryByLanguage [''/w''] exampleUri, Log ''Detected query language: javascript'']) \<and>
   ShowQuickPick [''cpp'', ''javascript'']
     \<lparr>placeHolder = ''Select target language for your query'', ignoreFocusOut = True\<rparr>
     \<in> set (snd (findLanguage (exampleHost yamlBare) brokenCli (Some exampleUri))) \<and>
   fst (findLanguage (exampleHost yamlBare) brokenCli (Some exampleUri)) = Inr None \<and>
   last (snd (findLanguage (exampleHost yamlBare) brokenCli (Some exampleUri))) =
     ShowAndLogErrorMessage (Text ''Language not found. Language must be specified manually.'') \<and>
   ShowQuickPick [''cpp'', ''javascript'']
     \<lparr>placeHolder = ''Select target language for your query'', ignoreFocusOut = True\<rparr>
     \<in> set (snd (findLanguage (pickingHost ''cpp'') brokenCli (Some exampleUri))) \<and>
   fst (findLanguage (pickingHost ''cpp'') brokenCli (Some exampleUri)) = Inr (Some ''cpp'') \<and>
   last (snd (findLanguage (pickingHost ''cpp'') brokenCli (Some exampleUri))) =
     ShowQuickPick [''cpp'', ''javascript'']
       \<lparr>placeHolder = ''Select target language for your query'', ignoreFocusOut = True\<rparr> \<and>
   filter isNotification (snd (findLanguage (pickingHost ''cpp'') brokenCli (Some exampleUri))) = []"
proof -
  let ?opts = "\<lparr>placeHolder = ''Select target language for your query'', ignoreFocusOut = True\<rparr>"
  have detect: "resolveQueryByLanguage (exampleCli [''javascript''])
      (getOnDiskWorkspaceFolders (exampleHost yamlBare)) exampleUri =
      Inr \<lparr>byLanguage = [(''javascript'', [''/w/query.ql''])]\<rparr>"
    by (simp add: example_defs)
  have threw: "resolveQueryByLanguage brokenCli
      (getOnDiskWorkspaceFolders (exampleHost yamlBare)) exampleUri =
      Inl (Error ''resolve queries failed'')"
    by (simp add: example_defs)
  have threw': "resolveQueryByLanguage brokenCli
      (getOnDiskWorkspaceFolders (pickingHost ''cpp'')) exampleUri =
      Inl (Error ''resolve queries failed'')"
    by (simp add: example_defs pickingHost_def)
  have langs: "resolveLanguages brokenCli = Inr [(''cpp'', []), (''javascript'', [])]"
    by (simp add: example_defs)
  have cancel: "showQuickPick (exampleHost yamlBare) [''cpp'', ''javascript''] ?opts = Inr None"
    by (simp add: example_defs)
  have pick: "showQuickPick (pickingHost ''cpp'') [''cpp'', ''javascript''] ?opts
      = Inr (Some ''cpp'')"
    by (simp add: pickingHost_def)
  have folders: "getOnDiskWorkspaceFolders (exampleHost yamlBare) = [''/w'']"
    by (simp add: example_defs)
  note a = findLanguage_autodetect_then_prompt
      [of "Some exampleUri" "exampleHost yamlBare" "exampleCli [''javascript'']"]
  note b = findLanguage_autodetect_then_prompt
      [of "Some exampleUri" "exampleHost yamlBare" brokenCli]
  note c = findLanguage_autodetect_then_prompt
      [of "Some exampleUri" "pickingHost ''cpp''" brokenCli]
  have 1: "findLanguage (exampleHost yamlBare) (exampleCli [''javascript'']) (Some exampleUri) =
     (Inr (Some ''javascript''),
      [ResolveQueryByLanguage [''/w''] exampleUri, Log ''Detected query language: javascript''])"
    using a detect folders by simp
  have 2: "ShowQuickPick [''cpp'', ''javascript''] ?opts
     \<in> set (snd (findLanguage (exampleHost yamlBare) brokenCli (Some exampleUri)))"
    using b threw langs by simp
  have 3: "fst (findLanguage (exampleHost yamlBare) brokenCli (Some exampleUri)) = Inr None \<and>
     last (snd (findLanguage (exampleHost yamlBare) brokenCli (Some exampleUri))) =
     ShowAndLogErrorMessage (Text ''Language not found. Language must be specified manually.'')"
    using b 2 cancel by blast
  have 4: "ShowQuickPick [''cpp'', ''javascript''] ?opts
     \<in> set (snd (findLanguage (pickingHost ''cpp'') brokenCli (Some exampleUri)))"
    using c threw' langs by simp
  have ne: "\<exists>l. Some ''cpp'' = Some l \<and> l \<noteq> []"
    by simp
  have 5: "fst (findLanguage (pickingHost ''cpp'') brokenCli (Some exampleUri)) = Inr (Some ''cpp'') \<and>
     last (snd (findLanguage (pickingHost ''cpp'') brokenCli (Some exampleUri))) =
       ShowQuickPick [''cpp'', ''javascript''] ?opts \<and>
     filter isNotification (snd (findLanguage (pickingHost ''cpp'') brokenCli (Some exampleUri))) = []"
    using c 4 pick ne by blast
  show ?thesis using 1 2 3 4 5 by blast
qed



text \<open>
  Claim C7. A run that issues the request resolves, whatever the request returns. Nothing
  before the request is a request or a notification, and the request is followed by
  exactly one call: \<open>showAndLogErrorMessage\<close> with the error when the request threw,
  \<open>showAndLogInformationMessage\<close> when it succeeded.
\<close>

theorem runRemoteQuery_request_outcome:
  assumes "Request route params \<in> set (snd (runRemoteQuery host cliServer credentials uri))"
  shows "\<exists>octokit before.
           getOctokit credentials = Inr octokit \<and>
           requests before = [] \<and> filter isNotification before = [] \<and>
           runRemoteQuery host cliServer credentials uri =
             (Inr (),
              before @
              [Request route params,
               (case octokit route params of
                  Inl e \<Rightarrow> ShowAndLogErrorMessage (Caught e)
                | Inr _ \<Rightarrow>
                    ShowAndLogInformationMessage
                      (''Successfully scheduled runs. [Click here to see the progress]'' @
                       ''(https://github.com/dsp-testing/qc-controller/actions).''))])"
proof -
  from request_inversion[OF assms] obtain u octokit tok q y config lang evs where
    oc: "getOctokit credentials = Inr octokit"
    and step: "languageStep host cliServer u config = (Inr (Some lang), evs)"
    and lang: "lang \<noteq> []"
    and route: "route = ROUTE"
    and run: "runRemoteQuery host cliServer credentials uri =
       (Inr (), preamble u y @ evs @ [Request ROUTE params, outcomeNotice (octokit ROUTE params)])"
    by blast
  have evs: "requests evs = [] \<and> filter isNotification evs = []"
    using languageStep_shape[of host cliServer u config] step lang by simp
  have "requests (preamble u y @ evs) = [] \<and> filter isNotification (preamble u y @ evs) = []"
    using evs by (simp add: requests_append preamble_def)
  moreover have "runRemoteQuery host cliServer credentials uri =
      (Inr (), (preamble u y @ evs) @
        [Request route params,
         (case octokit route params of
            Inl e \<Rightarrow> ShowAndLogErrorMessage (Caught e)
          | Inr _ \<Rightarrow>
              ShowAndLogInformationMessage
                (''Successfully scheduled runs. [Click here to see the progress]'' @
                 ''(https://github.com/dsp-testing/qc-controller/actions).''))])"
    using run route
    by (simp add: outcomeNotice_def scheduled_def OWNER_def REPO_def split: sum.splits)
  ultimately show ?thesis using oc by blast
qed

text \<open>
  The whole run for a client that rejects the request.
\<close>

theorem runRemoteQuery_request_outcome_witness:
  "runRemoteQuery (exampleHost yamlNoRef) (exampleCli [])
     (exampleCredentials (Inl (Error ''HttpError''))) (Some exampleUri) =
     (Inr (),
      [GetOctokit, GetToken, ReadFile ''/w/query.ql'', PathExists ''/w/query.repositories'',
       ReadFile ''/w/query.repositories'', SafeLoad yamlNoRef,
       Request ''POST /repos/:owner/:repo/code-scanning/codeql/queries''
         \<lparr>owner = ''dsp-testing'', repo = ''qc-controller'',
          data = \<lparr>ref = ''main'', language = ''javascript'', repositories = [''octo/demo''],
                  query = ''select 1'', token = ''gho_example''\<rparr>\<rparr>,
       ShowAndLogErrorMessage (Caught (Error ''HttpError''))])"
proof -
  let ?p = "\<lparr>owner = ''dsp-testing'', repo = ''qc-controller'',
          data = \<lparr>ref = ''main'', language = ''javascript'', repositories = [''octo/demo''],
                  query = ''select 1'', token = ''gho_example''\<rparr>\<rparr>"
  let ?run = "runRemoteQuery (exampleHost yamlNoRef) (exampleCli [])
     (exampleCredentials (Inl (Error ''HttpError''))) (Some exampleUri)"
  have pre: "take 6 (snd ?run) =
      [GetOctokit, GetToken, ReadFile ''/w/query.ql'', PathExists ''/w/query.repositories'',
       ReadFile ''/w/query.repositories'', SafeLoad yamlNoRef]"
    by (simp add: example_defs run_defs)
  have len: "length (snd ?run) = 8"
    by (simp add: example_defs run_defs)
  have mem: "Request ''POST /repos/:owner/:repo/code-scanning/codeql/queries'' ?p \<in> set (snd ?run)"
    by (simp add: example_defs run_defs)
  from runRemoteQuery_request_outcome[OF mem] obtain octokit before where
    oc: "getOctokit (exampleCredentials (Inl (Error ''HttpError''))) = Inr octokit"
    and run: "?run = (Inr (), before @
        [Request ''POST /repos/:owner/:repo/code-scanning/codeql/queries'' ?p,
         (case octokit ''POST /repos/:owner/:repo/code-scanning/codeql/queries'' ?p of
            Inl e \<Rightarrow> ShowAndLogErrorMessage (Caught e)
          | Inr _ \<Rightarrow>
              ShowAndLogInformationMessage
                (''Successfully scheduled runs. [Click here to see the progress]'' @
                 ''(https://github.com/dsp-testing/qc-controller/actions).''))])"
    by blast
  have "octokit = (\<lambda>route params. Inl (Error ''HttpError''))"
    using oc by (simp add: exampleCredentials_def)
  moreover have "length before = 6" using len run by simp
  then have "before = take 6 (snd ?run)" using run by simp
  ultimately show ?thesis using run pre by simp
qed

text \<open>
  Claim C8. For an undefined uri, or one whose path does not end in \<open>.ql\<close>, the run
  resolves and no call is made.
\<close>

theorem runRemoteQuery_ignores_other_uris:
  "uri = None \<or> (\<exists>u. uri = Some u \<and> \<not> endsWith (fsPath u) ''.ql'') \<Longrightarrow>
   runRemoteQuery host cliServer credentials uri = (Inr (), [])"
  by (auto simp: runRemoteQuery_def resolved_def)

text \<open>
  The undefined uri and the uri of a text file.
\<close>

theorem runRemoteQuery_ignores_other_uris_witness:
  "runRemoteQuery (exampleHost yamlNoRef) (exampleCli []) (exampleCredentials (Inr ())) None
     = (Inr (), []) \<and>
   \<not> endsWith ''/w/notes.txt'' ''.ql'' \<and>
   runRemoteQuery (exampleHost yamlNoRef) (exampleCli []) (exampleCredentials (Inr ()))
     (Some \<lparr>fsPath = ''/w/notes.txt''\<rparr>) = (Inr (), [])"
  using runRemoteQuery_ignores_other_uris
          [of None "exampleHost yamlNoRef" "exampleCli []" "exampleCredentials (Inr ())"]
        runRemoteQuery_ignores_other_uris
          [of "Some \<lparr>fsPath = ''/w/notes.txt''\<rparr>" "exampleHost yamlNoRef" "exampleCli []"
              "exampleCredentials (Inr ())"]
  by (simp add: endsWith_def)

text \<open>
  Claim C9, amended. When the sibling \<open>.repositories\<close> file does not exist, no
  configuration is parsed, no language is resolved, no request is issued and only the
  query file is read. When, moreover, the credentials and the text of the query file were
  obtained, the run shows the error message that names the missing file and resolves.
\<close>

theorem runRemoteQuery_missing_repositories:
  assumes "endsWith (fsPath u) ''.ql''"
    and "\<not> pathExists host (repositoriesFileOf (fsPath u))"
  shows "(\<forall>ev \<in> set (snd (runRemoteQuery host cliServer credentials (Some u))).
            \<not> isLanguageEvent ev \<and> (\<forall>t. ev \<noteq> SafeLoad t) \<and>
            (\<forall>route params. ev \<noteq> Request route params) \<and>
            (\<forall>p. ev = ReadFile p \<longrightarrow> p = fsPath u)) \<and>
         (\<forall>octokit tok q.
            getOctokit credentials = Inr octokit \<longrightarrow>
            getToken credentials = Inr tok \<longrightarrow>
            readFile host (fsPath u) = Inr q \<longrightarrow>
            runRemoteQuery host cliServer credentials (Some u) =
              (Inr (),
               [GetOctokit, GetToken, ReadFile (fsPath u),
                PathExists (repositoriesFileOf (fsPath u)),
                ShowAndLogErrorMessage
                  (Text (''Missing file: '' @ [CHR 0x27] @ repositoriesFileOf (fsPath u) @
                         [CHR 0x27] @
                         '' to specify the repositories to run against. '' @
                         ''This file must be a sibling of '' @ fsPath u @ ''.''))]))"
proof -
  have shown: "runRemoteQuery host cliServer credentials (Some u) =
              (Inr (),
               [GetOctokit, GetToken, ReadFile (fsPath u),
                PathExists (repositoriesFileOf (fsPath u)),
                ShowAndLogErrorMessage
                  (Text (''Missing file: '' @ [CHR 0x27] @ repositoriesFileOf (fsPath u) @
                         [CHR 0x27] @
                         '' to specify the repositories to run against. '' @
                         ''This file must be a sibling of '' @ fsPath u @ ''.''))])"
    if "getOctokit credentials = Inr octokit" "getToken credentials = Inr tok"
      "readFile host (fsPath u) = Inr q" for octokit tok q
    using run_missing_file[OF assms(1) that assms(2), of cliServer]
    by (simp add: missingFile_def)
  have quiet: "\<forall>ev \<in> set (snd (runRemoteQuery host cliServer credentials (Some u))).
            \<not> isLanguageEvent ev \<and> (\<forall>t. ev \<noteq> SafeLoad t) \<and>
            (\<forall>route params. ev \<noteq> Request route params) \<and>
            (\<forall>p. ev = ReadFile p \<longrightarrow> p = fsPath u)"
  proof (cases rule: progress_cases[where uri = "Some u" and cred = credentials and host = host])
    case NotQl
    then show ?thesis using assms(1) by simp
  next
    case (NoOctokit u' e)
    then show ?thesis using run_no_octokit[OF NoOctokit(2,3), of host cliServer] by simp
  next
    case (NoToken u' octokit e)
    then show ?thesis using run_no_token[OF NoToken(2-4), of host cliServer] by simp
  next
    case (NoQuery u' octokit tok e)
    then show ?thesis using run_no_query[OF NoQuery(2-5), of cliServer] by simp
  next
    case (Missing u' octokit tok q)
    then show ?thesis using run_missing_file[OF Missing(2-6), of cliServer] by simp
  next
    case (NoConfig u' octokit tok q e)
    then show ?thesis using assms(2) by simp
  next
    case (BadYaml u' octokit tok q y e)
    then show ?thesis using assms(2) by simp
  next
    case (Parsed u' octokit tok q y config)
    then show ?thesis using assms(2) by simp
  qed
  from quiet shown show ?thesis by blast
qed

text \<open>
  A disk that holds the query but not its sibling.
\<close>

theorem runRemoteQuery_missing_repositories_witness:
  "endsWith (fsPath exampleUri) ''.ql'' \<and>
   \<not> pathExists (emptyDisk\<lparr>readFile := \<lambda>p. Inr ''select 1''\<rparr>)
       (repositoriesFileOf (fsPath exampleUri)) \<and>
   runRemoteQuery (emptyDisk\<lparr>readFile := \<lambda>p. Inr ''select 1''\<rparr>) brokenCli
       (exampleCredentials (Inr ())) (Some exampleUri) =
     (Inr (),
      [GetOctokit, GetToken, ReadFile ''/w/query.ql'', PathExists ''/w/query.repositories'',
       ShowAndLogErrorMessage
         (Text (''Missing file: '' @ [CHR 0x27] @ ''/w/query.repositories'' @ [CHR 0x27] @
                '' to specify the repositories to run against. '' @
                ''This file must be a sibling of '' @ ''/w/query.ql'' @ ''.''))])"
proof -
  let ?host = "emptyDisk\<lparr>readFile := \<lambda>p. Inr ''select 1''\<rparr>"
  have ql: "endsWith (fsPath exampleUri) ''.ql''"
    by (simp add: exampleUri_def endsWith_def)
  have missing: "\<not> pathExists ?host (repositoriesFileOf (fsPath exampleUri))"
    by (simp add: emptyDisk_def)
  have oc: "getOctokit (exampleCredentials (Inr ())) = Inr (\<lambda>route params. Inr ())"
    by (simp add: exampleCredentials_def)
  have tk: "getToken (exampleCredentials (Inr ())) = Inr ''gho_example''"
    by (simp add: exampleCredentials_def)
  have q: "readFile ?host (fsPath exampleUri) = Inr ''select 1''"
    by simp
  have qf: "fsPath exampleUri = ''/w/query.ql''"
    by (simp add: exampleUri_def)
  have rf: "repositoriesFileOf ''/w/query.ql'' = ''/w/query.repositories''"
    by (simp add: repositoriesFileOf_def substring_def)
  note run = runRemoteQuery_missing_repositories
      [OF ql missing, of brokenCli "exampleCredentials (Inr ())",
       THEN conjunct2, rule_format, OF oc tk q]
  show ?thesis
    using ql missing run unfolding rf qf by blast
qed

text \<open>
  Claim C9 as stated fails when a call before the existence check rejects: on a disk
  without the query file and without its sibling, reading the query file throws, the
  run rejects and no notification is shown.
\<close>

theorem runRemoteQuery_missing_repositories_counterexample:
  "endsWith (fsPath exampleUri) ''.ql'' \<and>
   \<not> pathExists emptyDisk (repositoriesFileOf (fsPath exampleUri)) \<and>
   runRemoteQuery emptyDisk brokenCli (exampleCredentials (Inr ())) (Some exampleUri) =
     (Inl (Error ''ENOENT''), [GetOctokit, GetToken, ReadFile ''/w/query.ql''])"
  by (simp add: example_defs run_defs)

text \<open>
  Claim C10. When the autodetection succeeds with an empty \<open>byLanguage\<close> object,
  \<open>findLanguage\<close> returns \<open>undefined\<close> after the detection call and one log line:
  no prompt, no error message. A run of \<open>runRemoteQuery\<close> that falls back on
  \<open>findLanguage\<close> then resolves after those two calls: no request and no notification.
\<close>

theorem findLanguage_empty_detection:
  assumes "resolveQueryByLanguage cliServer (getOnDiskWorkspaceFolders host) u = Inr info"
    and "byLanguage info = []"
  shows "(\<forall>queryUri. queryUri = Some u \<or> queryUri = None \<and> activeTextEditor host = Some u \<longrightarrow>
            findLanguage host cliServer queryUri =
              (Inr None,
               [ResolveQueryByLanguage (getOnDiskWorkspaceFolders host) u,
                Log ''Detected query language: undefined''])) \<and>
         (\<forall>octokit tok q y config.
            endsWith (fsPath u) ''.ql'' \<longrightarrow>
            getOctokit credentials = Inr octokit \<longrightarrow>
            getToken credentials = Inr tok \<longrightarrow>
            readFile host (fsPath u) = Inr q \<longrightarrow>
            pathExists host (repositoriesFileOf (fsPath u)) \<longrightarrow>
            readFile host (repositoriesFileOf (fsPath u)) = Inr y \<longrightarrow>
            safeLoad host y = Inr config \<longrightarrow>
            (Config.language config = None \<or> Config.language config = Some []) \<longrightarrow>
            runRemoteQuery host cliServer credentials (Some u) =
              (Inr (),
               [GetOctokit, GetToken, ReadFile (fsPath u),
                PathExists (repositoriesFileOf (fsPath u)),
                ReadFile (repositoriesFileOf (fsPath u)), SafeLoad y,
                ResolveQueryByLanguage (getOnDiskWorkspaceFolders host) u,
                Log ''Detected query language: undefined'']))"
proof -
  have find: "findLanguage host cliServer queryUri =
              (Inr None,
               [ResolveQueryByLanguage (getOnDiskWorkspaceFolders host) u,
                Log ''Detected query language: undefined''])"
    if "queryUri = Some u \<or> queryUri = None \<and> activeTextEditor host = Some u" for queryUri
    using that assms by (auto simp: findLanguage_cases)
  have "runRemoteQuery host cliServer credentials (Some u) =
              (Inr (),
               [GetOctokit, GetToken, ReadFile (fsPath u),
                PathExists (repositoriesFileOf (fsPath u)),
                ReadFile (repositoriesFileOf (fsPath u)), SafeLoad y,
                ResolveQueryByLanguage (getOnDiskWorkspaceFolders host) u,
                Log ''Detected query language: undefined''])"
    if "endsWith (fsPath u) ''.ql''" "getOctokit credentials = Inr octokit"
      "getToken credentials = Inr tok" "readFile host (fsPath u) = Inr q"
      "pathExists host (repositoriesFileOf (fsPath u))"
      "readFile host (repositoriesFileOf (fsPath u)) = Inr y"
      "safeLoad host y = Inr config"
      "Config.language config = None \<or> Config.language config = Some []"
    for octokit tok q y config
  proof -
    have "languageStep host cliServer u config =
            (Inr None,
             [ResolveQueryByLanguage (getOnDiskWorkspaceFolders host) u,
              Log ''Detected query language: undefined''])"
      using that(8) find[of "Some u"] by (auto simp: languageStep_def)
    then show ?thesis
      using run_parsed[OF that(1-7), of cliServer] by (simp add: preamble_def)
  qed
  with find show ?thesis by blast
qed

text \<open>
  A configuration without a language and a CLI server that detects none.
\<close>

theorem findLanguage_empty_detection_witness:
  "findLanguage (exampleHost yamlBare) (exampleCli []) (Some exampleUri) =
     (Inr None,
      [ResolveQueryByLanguage [''/w''] exampleUri, Log ''Detected query language: undefined'']) \<and>
   runRemoteQuery (exampleHost yamlBare) (exampleCli []) (exampleCredentials (Inr ()))
      (Some exampleUri) =
     (Inr (),
      [GetOctokit, GetToken, ReadFile ''/w/query.ql'', PathExists ''/w/query.repositories'',
       ReadFile ''/w/query.repositories'', SafeLoad ''{repositories: [octo/demo]}'',
       ResolveQueryByLanguage [''/w''] exampleUri, Log ''Detected query language: undefined''])"
proof -
  have 1: "resolveQueryByLanguage (exampleCli [])
      (getOnDiskWorkspaceFolders (exampleHost yamlBare)) exampleUri = Inr \<lparr>byLanguage = []\<rparr>"
    by (simp add: example_defs)
  have 2: "byLanguage \<lparr>byLanguage = []\<rparr> = []"
    by simp
  have rf: "repositoriesFileOf (fsPath exampleUri) = ''/w/query.repositories''"
    by (simp add: exampleUri_def repositoriesFileOf_def substring_def)
  have hyps: "endsWith (fsPath exampleUri) ''.ql''"
    "getOctokit (exampleCredentials (Inr ())) = Inr (\<lambda>route params. Inr ())"
    "getToken (exampleCredentials (Inr ())) = Inr ''gho_example''"
    "readFile (exampleHost yamlBare) (fsPath exampleUri) = Inr ''select 1''"
    "pathExists (exampleHost yamlBare) ''/w/query.repositories''"
    "readFile (exampleHost yamlBare) ''/w/query.repositories'' = Inr ''{repositories: [octo/demo]}''"
    "safeLoad (exampleHost yamlBare) ''{repositories: [octo/demo]}'' = Inr configBare"
    "Config.language configBare = None"
    "fsPath exampleUri = ''/w/query.ql''"
    "getOnDiskWorkspaceFolders (exampleHost yamlBare) = [''/w'']"
    by (simp_all add: example_defs endsWith_def)
  from findLanguage_empty_detection[OF 1 2, of "exampleCredentials (Inr ())"] hyps rf
  show ?thesis by simp
qed

end
